theory Spec2Isabelle
  imports Main "HOL-Library.Word" "HOL-Library.Sublist"
begin

section \<open>Values of modules/accounts.js\<close>

text \<open>
  A Node Buffer is a list of bytes. \<open>toString_hex\<close> is \<open>buf.toString('hex')\<close>: two
  lower-case hexadecimal digits per byte.
\<close>

type_synonym buffer = "8 word list"

definition hexDigit :: "nat \<Rightarrow> char" where
  "hexDigit n = ''0123456789abcdef'' ! (n mod 16)"

definition toString_hex :: "buffer \<Rightarrow> string" where
  "toString_hex b = concat (map (\<lambda>w. [hexDigit (unat w div 16), hexDigit (unat w mod 16)]) b)"

text \<open>
  A public key travels either as a Buffer (\<open>keypair.publicKey\<close>) or as a hex string
  (\<open>req.body.multisigAccountPublicKey\<close>, \<open>keypair.publicKey.toString('hex')\<close>).
\<close>

datatype key = Buffer buffer | Hex string

text \<open>The result of \<open>library.ed.makeKeypair\<close>.\<close>

record keypair =
  publicKey :: buffer
  privateKey :: buffer

text \<open>
  An account record as \<open>library.logic.account.get\<close> hands it to its callback. A field that is
  \<open>null\<close> or \<open>undefined\<close> in JavaScript is \<open>None\<close>. Only the fields read by \<open>getBalance\<close> and
  \<open>addDelegates\<close> are kept.
\<close>

record account =
  address :: string
  publicKey :: "string option"
  balance :: string
  u_balance :: string
  secondSignature :: bool
  multisignatures :: "string list option"

text \<open>
  The object literal given to \<open>getAccount\<close> (the filter) and to \<open>setAccountAndGet\<close> (the data):
  an optional \<open>address\<close> and an optional \<open>publicKey\<close>.
\<close>

record fields =
  address :: "string option"
  publicKey :: "key option"

text \<open>\<open>req.body\<close> of the two endpoints.\<close>

record getBalance_body =
  address :: string

record addDelegates_body =
  secret :: string
  publicKey :: "string option"
  secondSecret :: "string option"
  multisigAccountPublicKey :: "string option"
  delegates :: "string list"

text \<open>\<open>transactionTypes.VOTE\<close>, the only transaction type this module creates.\<close>

datatype transactionTypes = VOTE

text \<open>The object literal given to \<open>library.logic.transaction.create\<close>.\<close>

record create_data =
  type :: transactionTypes
  votes :: "string list"
  sender :: account
  keypair :: keypair
  secondKeypair :: "keypair option"
  requester :: "keypair option"

text \<open>The vote transaction of section 3 of the specification.\<close>

record transaction =
  type :: transactionTypes
  senderAddress :: string
  senderPublicKey :: "string option"
  requesterPublicKey :: "string option"
  votesAsset :: "string list"
  signature :: buffer
  secondSignature :: "buffer option"

text \<open>
  What \<open>library.logic.transaction.create\<close> may throw: a string (\<open>throw 'Invalid sender'\<close>) or
  an Error object with a name and a message. \<open>toString\<close> is \<open>e.toString()\<close>: a string is
  itself, and \<open>Error.prototype.toString\<close> joins name and message with a colon and a blank
  unless one of them is empty.
\<close>

datatype thrown = ThrownString string | ThrownError string string


fun toString :: "thrown \<Rightarrow> string" where
  "toString (ThrownString s) = s"
| "toString (ThrownError name msg) =
     (if name = [] then msg else if msg = [] then name else name @ '': '' @ msg)"

text \<open>The responses handed to the caller's callback.\<close>

record getBalance_response =
  balance :: string
  unconfirmedBalance :: string

record addDelegates_response =
  transaction :: "transaction option"

section \<open>The collaborators\<close>

text \<open>
  Every call that leaves the module for the ledger store or the transaction pool is written
  to a journal, in order. The store is not part of the sources; what it answers may depend
  on everything that was asked of it before, so its operations take the journal so far.
\<close>

datatype call =
    AccountGet fields
  | AccountSet string fields
  | ReceiveTransactions "transaction list"

type_synonym journal = "call list"

text \<open>
  \<open>library\<close> and \<open>modules\<close> as far as this module uses them. A callback called with an
  \<open>err\<close> and no value is the left injection. The module tests \<open>if (err)\<close>, so the empty
  string as \<open>err\<close> is no error to it, and the value it then reads is \<open>undefined\<close>;
  \<open>schema_getBalance\<close> and \<open>schema_addDelegates\<close> are
  \<open>library.schema.validate\<close> at the two schemas and give \<open>err[0].message\<close> when the body is
  rejected; \<open>getAddress\<close> is \<open>arkjs.crypto.getAddress\<close>, a falsy result of which is the
  empty string; \<open>sha256\<close> is \<open>crypto.createHash('sha256').update(s, 'utf8').digest()\<close>;
  \<open>account_get\<close> and \<open>account_set\<close> are \<open>library.logic.account.get\<close> and
  \<open>library.logic.account.set\<close>, \<open>receiveTransactions\<close> is
  \<open>modules.transactions.receiveTransactions\<close>.
\<close>

record library =
  schema_getBalance :: "getBalance_body \<Rightarrow> string option"
  schema_addDelegates :: "addDelegates_body \<Rightarrow> string option"
  sha256 :: "string \<Rightarrow> buffer"
  makeKeypair :: "buffer \<Rightarrow> keypair"
  getAddress :: "key \<Rightarrow> string"
  account_get :: "journal \<Rightarrow> fields \<Rightarrow> string + account option"
  account_set :: "journal \<Rightarrow> string \<Rightarrow> fields \<Rightarrow> string option"
  transaction_create :: "create_data \<Rightarrow> thrown + transaction"
  receiveTransactions :: "journal \<Rightarrow> transaction list \<Rightarrow> string + transaction list"

section \<open>JavaScript truthiness\<close>

text \<open>
  \<open>if (x)\<close> on an optional string: \<open>undefined\<close>, \<open>null\<close> and the empty string are falsy.
  A Buffer is an object and always truthy, and so is every array, the empty one too.
\<close>

fun truthy :: "string option \<Rightarrow> bool" where
  "truthy None = False"
| "truthy (Some s) = (s \<noteq> [])"

fun truthy_key :: "key option \<Rightarrow> bool" where
  "truthy_key None = False"
| "truthy_key (Some (Buffer b)) = True"
| "truthy_key (Some (Hex s)) = (s \<noteq> [])"

section \<open>Account resolution\<close>

definition generateAddressByPublicKey :: "library \<Rightarrow> key \<Rightarrow> string" where
  "generateAddressByPublicKey lib pk = getAddress lib pk"

text \<open>
  \<open>Accounts.prototype.getAccount\<close>: a truthy \<open>filter.publicKey\<close> is replaced by the address
  derived from it, then the store is read.
\<close>

definition getAccount ::
  "library \<Rightarrow> journal \<Rightarrow> fields \<Rightarrow> (string + account option) \<times> journal" where
  "getAccount lib h fltr =
     (let fltr' =
        (case fields.publicKey fltr of
           Some pk \<Rightarrow>
             if truthy_key (Some pk)
             then fltr\<lparr>fields.address := Some (generateAddressByPublicKey lib pk),
                         fields.publicKey := None\<rparr>
             else fltr
         | None \<Rightarrow> fltr)
      in (account_get lib h fltr', h @ [AccountGet fltr']))"

text \<open>
  \<open>Accounts.prototype.setAccountAndGet\<close>: the address is \<open>data.address || null\<close>, else derived
  from \<open>data.publicKey\<close>; the record is written with \<open>library.logic.account.set\<close> and then read
  back with \<open>library.logic.account.get\<close>.
\<close>

definition setAccountAndGet ::
  "library \<Rightarrow> journal \<Rightarrow> fields \<Rightarrow> (string + account option) \<times> journal" where
  "setAccountAndGet lib h data =
     (case (case (if truthy (fields.address data) then fields.address data else None) of
              Some a \<Rightarrow> Inr a
            | None \<Rightarrow>
                (case fields.publicKey data of
                   Some pk \<Rightarrow>
                     if truthy_key (Some pk) then Inr (generateAddressByPublicKey lib pk)
                     else Inl ''Missing address or public key''
                 | None \<Rightarrow> Inl ''Missing address or public key'')) of
        Inl e \<Rightarrow> (Inl e, h)
      | Inr addr \<Rightarrow>
          if addr = [] then (Inl ''Invalid public key'', h)
          else
            (let h' = h @ [AccountSet addr data];
                 fltr = \<lparr>fields.address = Some addr, fields.publicKey = None\<rparr>
             in case account_set lib h addr data of
                  Some err \<Rightarrow>
                    if err \<noteq> [] then (Inl err, h')
                    else (account_get lib h' fltr, h' @ [AccountGet fltr])
                | None \<Rightarrow> (account_get lib h' fltr, h' @ [AccountGet fltr])))"

section \<open>getBalance\<close>

text \<open>
  The regular expression \<open>/^[1-9A-Za-z]{1,52}[A]$/\<close>: between one and 52 characters of the
  class, then a final \<open>A\<close>.
\<close>

definition isAddressChar :: "char \<Rightarrow> bool" where
  "isAddressChar c =
     (let n = (of_char c :: nat)
      in (49 \<le> n \<and> n \<le> 57) \<or> (65 \<le> n \<and> n \<le> 90) \<or> (97 \<le> n \<and> n \<le> 122))"

definition isAddress :: "string \<Rightarrow> bool" where
  "isAddress s =
     (case rev s of
        [] \<Rightarrow> False
      | c # r \<Rightarrow> c = CHR ''A'' \<and> 1 \<le> length r \<and> length r \<le> 52 \<and> list_all isAddressChar r)"

definition getBalance ::
  "library \<Rightarrow> journal \<Rightarrow> getBalance_body \<Rightarrow> (string + getBalance_response) \<times> journal" where
  "getBalance lib h body =
     (case schema_getBalance lib body of
        Some msg \<Rightarrow> (Inl msg, h)
      | None \<Rightarrow>
          if \<not> isAddress (getBalance_body.address body) then (Inl ''Invalid address'', h)
          else
            (case getAccount lib h
                    \<lparr>fields.address = Some (getBalance_body.address body),
                     fields.publicKey = None\<rparr> of
               (Inl err, h') \<Rightarrow>
                 if err \<noteq> [] then (Inl err, h')
                 else (Inr \<lparr>balance = ''0'', unconfirmedBalance = ''0''\<rparr>, h')
             | (Inr acc, h') \<Rightarrow>
                 (Inr \<lparr>balance = (case acc of Some a \<Rightarrow> account.balance a | None \<Rightarrow> ''0''),
                       unconfirmedBalance =
                         (case acc of Some a \<Rightarrow> u_balance a | None \<Rightarrow> ''0'')\<rparr>,
                  h')))"

section \<open>addDelegates\<close>

text \<open>
  Lines 263 and 264: the signer's keypair, derived from \<open>req.body.secret\<close>.
\<close>

definition signer :: "library \<Rightarrow> addDelegates_body \<Rightarrow> keypair" where
  "signer lib body = makeKeypair lib (sha256 lib (secret body))"

text \<open>
  The object literal both branches give to \<open>library.logic.transaction.create\<close>; the branch
  for the signer's own account leaves \<open>requester\<close> out.
\<close>

definition voteData ::
  "addDelegates_body \<Rightarrow> account \<Rightarrow> keypair \<Rightarrow> keypair option \<Rightarrow> keypair option \<Rightarrow> create_data" where
  "voteData body acc kp second req =
     \<lparr>create_data.type = VOTE,
      votes = delegates body,
      sender = acc,
      keypair = kp,
      secondKeypair = second,
      requester = req\<rparr>"

text \<open>
  The second keypair of both branches: derived from \<open>req.body.secondSecret\<close> when the account
  has \<open>secondSignature\<close>, else \<open>null\<close>. Both branches reach it only after the guard that
  rejects a falsy \<open>secondSecret\<close> on such an account.
\<close>

definition secondKeypairOf :: "library \<Rightarrow> bool \<Rightarrow> string option \<Rightarrow> keypair option" where
  "secondKeypairOf lib flag secondSecret' =
     (if flag
      then (case secondSecret' of
              Some s \<Rightarrow> Some (makeKeypair lib (sha256 lib s))
            | None \<Rightarrow> None)
      else None)"

text \<open>
  The branch taken when \<open>req.body.multisigAccountPublicKey\<close> is truthy and differs from the
  hex form of the derived public key (lines 274 to 331): \<open>target\<close> is that field. The test
  of line 283 is \<open>!account.multisignatures || !account.multisignatures\<close>: it rejects
  \<open>null\<close> and \<open>undefined\<close> and lets every array through, the empty one too, to the
  \<open>indexOf\<close> of line 287.
\<close>

definition addDelegates_multisig ::
  "library \<Rightarrow> addDelegates_body \<Rightarrow> keypair \<Rightarrow> string \<Rightarrow> journal
     \<Rightarrow> (string + transaction list) \<times> journal" where
  "addDelegates_multisig lib body kp target h =
     (case getAccount lib h \<lparr>fields.address = None, fields.publicKey = Some (Hex target)\<rparr> of
        (Inl err, h1) \<Rightarrow>
          if err \<noteq> [] then (Inl err, h1)
          else (Inl ''Multisignature account not found'', h1)
      | (Inr None, h1) \<Rightarrow> (Inl ''Multisignature account not found'', h1)
      | (Inr (Some acc), h1) \<Rightarrow>
          if \<not> truthy (account.publicKey acc)
          then (Inl ''Multisignature account not found'', h1)
          else
            (case multisignatures acc of
               None \<Rightarrow> (Inl ''Account does not have multisignatures enabled'', h1)
             | Some ms \<Rightarrow>
                 if toString_hex (keypair.publicKey kp) \<notin> set ms
                 then (Inl ''Account does not belong to multisignature group'', h1)
                 else
                   (case getAccount lib h1
                           \<lparr>fields.address = None,
                            fields.publicKey = Some (Buffer (keypair.publicKey kp))\<rparr> of
                      (Inl err, h2) \<Rightarrow>
                        if err \<noteq> [] then (Inl err, h2)
                        else (Inl ''Requester not found'', h2)
                    | (Inr None, h2) \<Rightarrow> (Inl ''Requester not found'', h2)
                    | (Inr (Some req), h2) \<Rightarrow>
                        if \<not> truthy (account.publicKey req)
                        then (Inl ''Requester not found'', h2)
                        else if account.secondSignature req \<and> \<not> truthy (secondSecret body)
                        then (Inl ''Missing requester second passphrase'', h2)
                        else if account.publicKey req = account.publicKey acc
                        then (Inl ''Invalid requester public key'', h2)
                        else
                          (case transaction_create lib
                                  (voteData body acc kp
                                     (secondKeypairOf lib (account.secondSignature req)
                                        (secondSecret body))
                                     (Some kp)) of
                             Inl e \<Rightarrow> (Inl (toString e), h2)
                           | Inr tx \<Rightarrow>
                               (receiveTransactions lib h2 [tx],
                                h2 @ [ReceiveTransactions [tx]])))))"

text \<open>The other branch (lines 334 to 369): the signer votes for its own account.\<close>

definition addDelegates_own ::
  "library \<Rightarrow> addDelegates_body \<Rightarrow> keypair \<Rightarrow> journal
     \<Rightarrow> (string + transaction list) \<times> journal" where
  "addDelegates_own lib body kp h =
     (case setAccountAndGet lib h
             \<lparr>fields.address = None,
              fields.publicKey = Some (Hex (toString_hex (keypair.publicKey kp)))\<rparr> of
        (Inl err, h1) \<Rightarrow>
          if err \<noteq> [] then (Inl err, h1) else (Inl ''Account not found'', h1)
      | (Inr None, h1) \<Rightarrow> (Inl ''Account not found'', h1)
      | (Inr (Some acc), h1) \<Rightarrow>
          if \<not> truthy (account.publicKey acc) then (Inl ''Account not found'', h1)
          else if account.secondSignature acc \<and> \<not> truthy (secondSecret body)
          then (Inl ''Invalid second passphrase'', h1)
          else
            (case transaction_create lib
                    (voteData body acc kp
                       (secondKeypairOf lib (account.secondSignature acc) (secondSecret body))
                       None) of
               Inl e \<Rightarrow> (Inl (toString e), h1)
             | Inr tx \<Rightarrow>
                 (receiveTransactions lib h1 [tx], h1 @ [ReceiveTransactions [tx]])))"

text \<open>
  The condition of line 273, which chooses between the two branches.
\<close>

definition multisigTarget :: "addDelegates_body \<Rightarrow> keypair \<Rightarrow> string option" where
  "multisigTarget body kp =
     (case multisigAccountPublicKey body of
        Some target \<Rightarrow>
          if truthy (Some target) \<and> target \<noteq> toString_hex (keypair.publicKey kp)
          then Some target else None
      | None \<Rightarrow> None)"

text \<open>
  The test of lines 266 and 267: a truthy \<open>req.body.publicKey\<close> that is not the hex form of
  the derived public key.
\<close>

definition publicKeyMismatch :: "addDelegates_body \<Rightarrow> keypair \<Rightarrow> bool" where
  "publicKeyMismatch body kp =
     (truthy (addDelegates_body.publicKey body)
      \<and> Some (toString_hex (keypair.publicKey kp)) \<noteq> addDelegates_body.publicKey body)"

text \<open>
  Modelled from the spec: \<open>library.balancesSequence.add\<close>, whose file (helpers/sequence.js) is
  not among the sources. Section 4.5: the unit of work runs as one step, and on completion
  its result, the built transaction or the first error, goes back to the original caller.
  For one request that is: run the worker, hand what it gave its callback to \<open>done\<close>.
\<close>

definition balancesSequence_add ::
  "(journal \<Rightarrow> 'a \<times> journal) \<Rightarrow> ('a \<Rightarrow> 'b) \<Rightarrow> journal \<Rightarrow> 'b \<times> journal" where
  "balancesSequence_add worker done' h = (case worker h of (r, h') \<Rightarrow> (done' r, h'))"

text \<open>
  \<open>shared.addDelegates\<close>. The result is what the caller's callback is called with, and
  \<open>None\<close> when it is never called: the callback of lines 371 to 377 tests \<open>if (err)\<close>, so
  when the worker ends with the empty string as \<open>err\<close> and no transactions it goes on to
  read \<open>transaction[0]\<close> of \<open>undefined\<close>, which throws a TypeError that nothing catches.
\<close>

definition addDelegates ::
  "library \<Rightarrow> journal \<Rightarrow> addDelegates_body
     \<Rightarrow> (string + addDelegates_response) option \<times> journal" where
  "addDelegates lib h body =
     (case schema_addDelegates lib body of
        Some msg \<Rightarrow> (Some (Inl msg), h)
      | None \<Rightarrow>
          (let kp = signer lib body
           in if publicKeyMismatch body kp then (Some (Inl ''Invalid passphrase''), h)
              else
                balancesSequence_add
                  (\<lambda>h. case multisigTarget body kp of
                         Some target \<Rightarrow> addDelegates_multisig lib body kp target h
                       | None \<Rightarrow> addDelegates_own lib body kp h)
                  (\<lambda>r. case r of
                         Inl err \<Rightarrow> if err \<noteq> [] then Some (Inl err) else None
                       | Inr txs \<Rightarrow>
                           Some (Inr \<lparr>transaction =
                                        (case txs of [] \<Rightarrow> None | tx # _ \<Rightarrow> Some tx)\<rparr>))
                  h))"

text \<open>
  Modelled from the spec: \<open>library.logic.transaction.create\<close>, whose file (logic/transaction.js)
  is not among the sources. Sections 3 and 4.4: the builder populates the vote list from
  the request, attaches the sender identity, applies the primary signature with the
  signer's keypair, the second signature if a second keypair is given, and attaches the
  requester's public key only when a requester is given; an exception of the schema
  validation or of the signing step is thrown. The validation and the signature primitive
  are parameters.
\<close>

definition create ::
  "(create_data \<Rightarrow> thrown option) \<Rightarrow> (keypair \<Rightarrow> create_data \<Rightarrow> buffer)
     \<Rightarrow> create_data \<Rightarrow> thrown + transaction" where
  "create check sign data =
     (case check data of
        Some e \<Rightarrow> Inl e
      | None \<Rightarrow>
          Inr \<lparr>transaction.type = create_data.type data,
               senderAddress = account.address (sender data),
               senderPublicKey = account.publicKey (sender data),
               requesterPublicKey =
                 map_option (\<lambda>k. toString_hex (keypair.publicKey k)) (requester data),
               votesAsset = votes data,
               signature = sign (keypair data) data,
               secondSignature = map_option (\<lambda>k. sign k data) (secondKeypair data)\<rparr>)"

section \<open>Writes to the ledger store\<close>



section \<open>A small ledger\<close>

text \<open>
  Concrete collaborators on which the theorems below are exercised. The passphrase
  \<open>abc\<close> derives the one-byte public key \<open>ab\<close>, every other passphrase \<open>cd\<close>; the
  address function reads a hex string in either case, as a hex decoder does, so that
  \<open>AB\<close> and \<open>ab\<close> name the same account; the store is a finite map from addresses to
  records, \<open>set\<close> succeeds, and the pool accepts what it is given.
\<close>

definition demoHash :: "string \<Rightarrow> buffer" where
  "demoHash s = (if s = ''abc'' then [0xAB] else [0xCD])"

definition demoKeypair :: "buffer \<Rightarrow> keypair" where
  "demoKeypair b = \<lparr>keypair.publicKey = b, privateKey = b\<rparr>"

definition demoAddress :: "key \<Rightarrow> string" where
  "demoAddress k =
     (if k = Hex ''ab'' \<or> k = Hex ''AB'' \<or> k = Buffer [0xAB] then ''1A''
      else if k = Hex ''cd'' \<or> k = Hex ''CD'' \<or> k = Buffer [0xCD] then ''2A''
      else ''3A'')"

definition demoGet :: "(string \<rightharpoonup> account) \<Rightarrow> journal \<Rightarrow> fields \<Rightarrow> string + account option" where
  "demoGet m h f = (case fields.address f of None \<Rightarrow> Inr None | Some a \<Rightarrow> Inr (m a))"

definition demoSign :: "keypair \<Rightarrow> create_data \<Rightarrow> buffer" where
  "demoSign kp data = privateKey kp"

definition demoLib ::
  "(string \<rightharpoonup> account) \<Rightarrow> (create_data \<Rightarrow> thrown + transaction) \<Rightarrow> library" where
  "demoLib m mk =
     \<lparr>schema_getBalance = (\<lambda>b. None),
      schema_addDelegates = (\<lambda>b. None),
      sha256 = demoHash,
      makeKeypair = demoKeypair,
      getAddress = demoAddress,
      account_get = demoGet m,
      account_set = (\<lambda>h a d. None),
      transaction_create = mk,
      receiveTransactions = (\<lambda>h txs. Inr txs)\<rparr>"

definition demoAccount ::
  "string \<Rightarrow> string \<Rightarrow> bool \<Rightarrow> string list option \<Rightarrow> account" where
  "demoAccount a pk second ms =
     \<lparr>account.address = a, account.publicKey = Some pk, account.balance = ''0'',
      u_balance = ''0'', account.secondSignature = second, multisignatures = ms\<rparr>"

definition demoBody :: "string option \<Rightarrow> string option \<Rightarrow> addDelegates_body" where
  "demoBody pk target =
     \<lparr>secret = ''abc'', addDelegates_body.publicKey = pk, secondSecret = None,
      multisigAccountPublicKey = target, delegates = [''+ef'']\<rparr>"

section \<open>The two branches seen from the caller\<close>

lemma addDelegates_multisig_branch:
  assumes "schema_addDelegates lib body = None"
    and "\<not> publicKeyMismatch body (signer lib body)"
    and "multisigTarget body (signer lib body) = Some target"
  shows "addDelegates lib h body =
     (case addDelegates_multisig lib body (signer lib body) target h of
        (Inl err, h') \<Rightarrow> (if err \<noteq> [] then Some (Inl err) else None, h')
      | (Inr txs, h') \<Rightarrow>
          (Some (Inr \<lparr>transaction = (case txs of [] \<Rightarrow> None | tx # _ \<Rightarrow> Some tx)\<rparr>), h'))"
  using assms
  by (simp add: addDelegates_def balancesSequence_add_def Let_def split: prod.splits sum.splits)

lemma addDelegates_own_branch:
  assumes "schema_addDelegates lib body = None"
    and "\<not> publicKeyMismatch body (signer lib body)"
    and "multisigTarget body (signer lib body) = None"
  shows "addDelegates lib h body =
     (case addDelegates_own lib body (signer lib body) h of
        (Inl err, h') \<Rightarrow> (if err \<noteq> [] then Some (Inl err) else None, h')
      | (Inr txs, h') \<Rightarrow>
          (Some (Inr \<lparr>transaction = (case txs of [] \<Rightarrow> None | tx # _ \<Rightarrow> Some tx)\<rparr>), h'))"
  using assms
  by (simp add: addDelegates_def balancesSequence_add_def Let_def split: prod.splits sum.splits)

lemma addDelegates_multisig_journal:
  assumes "schema_addDelegates lib body = None"
    and "\<not> publicKeyMismatch body (signer lib body)"
    and "multisigTarget body (signer lib body) = Some target"
  shows "snd (addDelegates lib h body)
         = snd (addDelegates_multisig lib body (signer lib body) target h)"
  using assms by (simp add: addDelegates_multisig_branch split: prod.splits sum.splits)

lemma addDelegates_own_journal:
  assumes "schema_addDelegates lib body = None"
    and "\<not> publicKeyMismatch body (signer lib body)"
    and "multisigTarget body (signer lib body) = None"
  shows "snd (addDelegates lib h body) = snd (addDelegates_own lib body (signer lib body) h)"
  using assms by (simp add: addDelegates_own_branch split: prod.splits sum.splits)

section \<open>What each step writes\<close>





section \<open>Thrown values\<close>


section \<open>The small ledger, evaluated\<close>

lemmas demo_defs = demoLib_def demoHash_def demoKeypair_def demoAddress_def demoGet_def
  demoAccount_def demoSign_def

lemma hex_ab: "toString_hex [0xAB] = ''ab''"
  by (simp add: toString_hex_def hexDigit_def)

lemma demoBody_fields:
  "secret (demoBody pk target) = ''abc''"
  "addDelegates_body.publicKey (demoBody pk target) = pk"
  "secondSecret (demoBody pk target) = None"
  "multisigAccountPublicKey (demoBody pk target) = target"
  "delegates (demoBody pk target) = [''+ef'']"
  by (simp_all add: demoBody_def)

lemma demo_signer:
  "signer (demoLib m mk) (demoBody pk target)
   = \<lparr>keypair.publicKey = [0xAB], privateKey = [0xAB]\<rparr>"
  by (simp add: signer_def demoBody_fields demoLib_def demoHash_def demoKeypair_def)

lemma demo_schema: "schema_addDelegates (demoLib m mk) b = None"
  by (simp add: demo_defs)

lemma demo_mismatch:
  "publicKeyMismatch (demoBody pk target) (signer (demoLib m mk) (demoBody pk target))
   = (truthy pk \<and> pk \<noteq> Some ''ab'')"
  by (auto simp: publicKeyMismatch_def demo_signer hex_ab demoBody_fields)

lemma demo_target:
  "multisigTarget (demoBody pk target) (signer (demoLib m mk) (demoBody pk target))
   = (if truthy target \<and> target \<noteq> Some ''ab'' then target else None)"
  by (cases target) (auto simp: multisigTarget_def demo_signer hex_ab demoBody_fields)

lemma demo_getAccount_hex:
  "getAccount (demoLib m mk) h \<lparr>fields.address = None, fields.publicKey = Some (Hex ''cd'')\<rparr>
   = (Inr (m ''2A''), h @ [AccountGet \<lparr>fields.address = Some ''2A'', fields.publicKey = None\<rparr>])"
  by (simp add: getAccount_def generateAddressByPublicKey_def demo_defs)

lemma demo_getAccount_HEX:
  "getAccount (demoLib m mk) h \<lparr>fields.address = None, fields.publicKey = Some (Hex ''AB'')\<rparr>
   = (Inr (m ''1A''), h @ [AccountGet \<lparr>fields.address = Some ''1A'', fields.publicKey = None\<rparr>])"
  by (simp add: getAccount_def generateAddressByPublicKey_def demo_defs)

lemma demo_getAccount_buffer:
  "getAccount (demoLib m mk) h \<lparr>fields.address = None, fields.publicKey = Some (Buffer [0xAB])\<rparr>
   = (Inr (m ''1A''), h @ [AccountGet \<lparr>fields.address = Some ''1A'', fields.publicKey = None\<rparr>])"
  by (simp add: getAccount_def generateAddressByPublicKey_def demo_defs)

lemma demo_setAccountAndGet:
  "setAccountAndGet (demoLib m mk) h \<lparr>fields.address = None, fields.publicKey = Some (Hex ''ab'')\<rparr>
   = (Inr (m ''1A''),
      h @ [AccountSet ''1A'' \<lparr>fields.address = None, fields.publicKey = Some (Hex ''ab'')\<rparr>,
           AccountGet \<lparr>fields.address = Some ''1A'', fields.publicKey = None\<rparr>])"
  by (simp add: setAccountAndGet_def generateAddressByPublicKey_def demo_defs)

section \<open>Claims about addDelegates and getBalance\<close>

text \<open>
  C4, as amended. A request that passed the schema and supplies a non-empty \<open>publicKey\<close>
  (a truthy one, the test of line 266) different from the hex form of the public key
  derived from \<open>secret\<close> is rejected with \<open>Invalid passphrase\<close>, the message of
  InvalidCredential, and the journal is the one the request started with: no account was
  read or written.
\<close>

theorem addDelegates_invalid_passphrase:
  assumes "schema_addDelegates lib body = None"
    and "truthy (addDelegates_body.publicKey body)"
    and "addDelegates_body.publicKey body
         \<noteq> Some (toString_hex (keypair.publicKey (signer lib body)))"
  shows "addDelegates lib h body = (Some (Inl ''Invalid passphrase''), h)"
  using assms by (auto simp: addDelegates_def publicKeyMismatch_def Let_def)

theorem addDelegates_invalid_passphrase_witness:
  "schema_addDelegates (demoLib Map.empty (create (\<lambda>d. None) demoSign))
     (demoBody (Some ''ff'') None) = None
   \<and> truthy (addDelegates_body.publicKey (demoBody (Some ''ff'') None))
   \<and> addDelegates_body.publicKey (demoBody (Some ''ff'') None)
       \<noteq> Some (toString_hex (keypair.publicKey
            (signer (demoLib Map.empty (create (\<lambda>d. None) demoSign))
               (demoBody (Some ''ff'') None))))
   \<and> addDelegates (demoLib Map.empty (create (\<lambda>d. None) demoSign)) []
         (demoBody (Some ''ff'') None)
       = (Some (Inl ''Invalid passphrase''), [])"
proof -
  let ?L = "demoLib Map.empty (create (\<lambda>d. None) demoSign)"
  let ?B = "demoBody (Some ''ff'') None"
  have 1: "schema_addDelegates ?L ?B = None" by (rule demo_schema)
  have 2: "truthy (addDelegates_body.publicKey ?B)" by (simp add: demoBody_fields)
  have 3: "addDelegates_body.publicKey ?B
           \<noteq> Some (toString_hex (keypair.publicKey (signer ?L ?B)))"
    by (simp add: demo_signer hex_ab demoBody_fields)
  show ?thesis using 1 2 3 addDelegates_invalid_passphrase [OF 1 2 3, of "[]"] by simp
qed

text \<open>
  C4 as stated fails for a request that supplies the empty string as \<open>publicKey\<close>: it is
  not the derived public key, but line 266 finds it falsy and skips the comparison; the
  signer's account is resolved and the vote transaction is built and handed to the pool.
\<close>

theorem addDelegates_invalid_passphrase_counterexample:
  "addDelegates_body.publicKey (demoBody (Some []) None) = Some []
   \<and> addDelegates_body.publicKey (demoBody (Some []) None)
       \<noteq> Some (toString_hex (keypair.publicKey
            (signer
               (demoLib [''1A'' \<mapsto> demoAccount ''1A'' ''ab'' False None]
                  (create (\<lambda>d. None) demoSign))
               (demoBody (Some []) None))))
   \<and> addDelegates
        (demoLib [''1A'' \<mapsto> demoAccount ''1A'' ''ab'' False None]
           (create (\<lambda>d. None) demoSign))
        [] (demoBody (Some []) None)
       = (Some (Inr \<lparr>transaction = Some
             \<lparr>transaction.type = VOTE, senderAddress = ''1A'',
              senderPublicKey = Some ''ab'', requesterPublicKey = None,
              votesAsset = [''+ef''], signature = [0xAB],
              transaction.secondSignature = None\<rparr>\<rparr>),
          [AccountSet ''1A'' \<lparr>fields.address = None, fields.publicKey = Some (Hex ''ab'')\<rparr>,
           AccountGet \<lparr>fields.address = Some ''1A'', fields.publicKey = None\<rparr>,
           ReceiveTransactions
             [\<lparr>transaction.type = VOTE, senderAddress = ''1A'',
               senderPublicKey = Some ''ab'', requesterPublicKey = None,
               votesAsset = [''+ef''], signature = [0xAB],
               transaction.secondSignature = None\<rparr>]])
   \<and> fst (addDelegates
        (demoLib [''1A'' \<mapsto> demoAccount ''1A'' ''ab'' False None]
           (create (\<lambda>d. None) demoSign))
        [] (demoBody (Some []) None))
       \<noteq> Some (Inl ''Invalid passphrase'')"
proof -
  let ?S = "demoAccount ''1A'' ''ab'' False None"
  let ?L = "demoLib [''1A'' \<mapsto> ?S] (create (\<lambda>d. None) demoSign)"
  let ?B = "demoBody (Some []) None"
  let ?kp = "\<lparr>keypair.publicKey = [0xAB], privateKey = [0xAB]\<rparr>"
  let ?g1 = "AccountGet \<lparr>fields.address = Some ''1A'', fields.publicKey = None\<rparr>"
  let ?s1 = "AccountSet ''1A'' \<lparr>fields.address = None, fields.publicKey = Some (Hex ''ab'')\<rparr>"
  let ?tx = "\<lparr>transaction.type = VOTE, senderAddress = ''1A'',
              senderPublicKey = Some ''ab'', requesterPublicKey = None,
              votesAsset = [''+ef''], signature = [0xAB],
              transaction.secondSignature = None\<rparr>"
  have 1: "schema_addDelegates ?L ?B = None" by (rule demo_schema)
  have 2: "\<not> publicKeyMismatch ?B (signer ?L ?B)" by (simp add: demo_mismatch)
  have 3: "multisigTarget ?B (signer ?L ?B) = None" by (simp add: demo_target)
  have 4: "setAccountAndGet ?L []
             \<lparr>fields.address = None, fields.publicKey = Some (Hex ''ab'')\<rparr>
           = (Inr (Some ?S), [?s1, ?g1])"
    by (simp add: demo_setAccountAndGet)
  have 5: "truthy (account.publicKey ?S) \<and> \<not> account.secondSignature ?S"
    by (simp add: demoAccount_def)
  have 6: "transaction_create ?L (voteData ?B ?S ?kp None None) = Inr ?tx"
    by (simp add: demoLib_def create_def voteData_def demoBody_fields demoAccount_def
        demoSign_def)
  have 7: "receiveTransactions ?L [?s1, ?g1] [?tx] = Inr [?tx]" by (simp add: demoLib_def)
  have "addDelegates_own ?L ?B ?kp [] = (Inr [?tx], [?s1, ?g1, ReceiveTransactions [?tx]])"
    using 5 by (simp add: addDelegates_own_def hex_ab 4 6 7 secondKeypairOf_def)
  then have r: "addDelegates ?L [] ?B
                = (Some (Inr \<lparr>transaction = Some ?tx\<rparr>),
                   [?s1, ?g1, ReceiveTransactions [?tx]])"
    using addDelegates_own_branch [OF 1 2 3, of "[]"] by (simp add: demo_signer)
  have k: "addDelegates_body.publicKey ?B = Some []" by (simp add: demoBody_fields)
  have m: "toString_hex (keypair.publicKey (signer ?L ?B)) = ''ab''"
    by (simp add: demo_signer hex_ab)
  from r k m show ?thesis by simp
qed

text \<open>
  C10. \<open>getBalance\<close> on a body that passed the schema, with an address that matches the
  regular expression and for which the store has no record (\<open>getAccount\<close> gives \<open>null\<close>
  without an error), succeeds with balance \<open>0\<close> and unconfirmed balance \<open>0\<close>.
\<close>

theorem getBalance_unknown_account:
  assumes "schema_getBalance lib body = None"
    and "isAddress (getBalance_body.address body)"
    and "getAccount lib h
           \<lparr>fields.address = Some (getBalance_body.address body), fields.publicKey = None\<rparr>
         = (Inr None, h1)"
  shows "getBalance lib h body
         = (Inr \<lparr>getBalance_response.balance = ''0'', unconfirmedBalance = ''0''\<rparr>, h1)"
  using assms by (simp add: getBalance_def)

theorem getBalance_unknown_account_witness:
  "schema_getBalance (demoLib Map.empty (create (\<lambda>d. None) demoSign))
     \<lparr>getBalance_body.address = ''1A''\<rparr> = None
   \<and> isAddress (getBalance_body.address \<lparr>getBalance_body.address = ''1A''\<rparr>)
   \<and> getBalance (demoLib Map.empty (create (\<lambda>d. None) demoSign)) []
         \<lparr>getBalance_body.address = ''1A''\<rparr>
       = (Inr \<lparr>getBalance_response.balance = ''0'', unconfirmedBalance = ''0''\<rparr>,
          [AccountGet \<lparr>fields.address = Some ''1A'', fields.publicKey = None\<rparr>])"
proof -
  let ?L = "demoLib Map.empty (create (\<lambda>d. None) demoSign)"
  let ?B = "\<lparr>getBalance_body.address = ''1A''\<rparr>"
  let ?f = "\<lparr>fields.address = Some ''1A'', fields.publicKey = None\<rparr>"
  have 1: "schema_getBalance ?L ?B = None" by (simp add: demoLib_def)
  have 2: "isAddress (getBalance_body.address ?B)"
    by (simp add: isAddress_def isAddressChar_def)
  have 3: "getAccount ?L []
             \<lparr>fields.address = Some (getBalance_body.address ?B), fields.publicKey = None\<rparr>
           = (Inr None, [AccountGet ?f])"
    by (simp add: getAccount_def demoLib_def demoGet_def)
  show ?thesis using 1 2 getBalance_unknown_account [OF 1 2 3] by simp
qed

text \<open>
  C6. On the branch for the signer's own account, when \<open>setAccountAndGet\<close> resolves an
  account with a public key and \<open>secondSignature\<close> set, and the request has no truthy
  \<open>secondSecret\<close>, the request is rejected with \<open>Invalid second passphrase\<close>, the message
  this branch gives for MissingSecondFactor, whatever \<open>delegates\<close> holds.
\<close>

theorem addDelegates_own_missing_second:
  assumes "schema_addDelegates lib body = None"
    and "\<not> publicKeyMismatch body (signer lib body)"
    and "multisigTarget body (signer lib body) = None"
    and "setAccountAndGet lib h
           \<lparr>fields.address = None,
            fields.publicKey = Some (Hex (toString_hex (keypair.publicKey (signer lib body))))\<rparr>
         = (Inr (Some acc), h1)"
    and "truthy (account.publicKey acc)"
    and "account.secondSignature acc"
    and "\<not> truthy (secondSecret body)"
  shows "addDelegates lib h body = (Some (Inl ''Invalid second passphrase''), h1)"
  using assms by (simp add: addDelegates_own_branch addDelegates_own_def)

theorem addDelegates_own_missing_second_witness:
  "schema_addDelegates
     (demoLib [''1A'' \<mapsto> demoAccount ''1A'' ''ab'' True None] (create (\<lambda>d. None) demoSign))
     (demoBody None None) = None
   \<and> multisigTarget (demoBody None None)
        (signer
           (demoLib [''1A'' \<mapsto> demoAccount ''1A'' ''ab'' True None]
              (create (\<lambda>d. None) demoSign))
           (demoBody None None)) = None
   \<and> account.secondSignature (demoAccount ''1A'' ''ab'' True None)
   \<and> \<not> truthy (secondSecret (demoBody None None))
   \<and> addDelegates
        (demoLib [''1A'' \<mapsto> demoAccount ''1A'' ''ab'' True None] (create (\<lambda>d. None) demoSign))
        [] (demoBody None None)
       = (Some (Inl ''Invalid second passphrase''),
          [AccountSet ''1A'' \<lparr>fields.address = None, fields.publicKey = Some (Hex ''ab'')\<rparr>,
           AccountGet \<lparr>fields.address = Some ''1A'', fields.publicKey = None\<rparr>])"
proof -
  let ?acc = "demoAccount ''1A'' ''ab'' True None"
  let ?L = "demoLib [''1A'' \<mapsto> ?acc] (create (\<lambda>d. None) demoSign)"
  let ?B = "demoBody None None"
  let ?h1 = "[AccountSet ''1A'' \<lparr>fields.address = None, fields.publicKey = Some (Hex ''ab'')\<rparr>,
              AccountGet \<lparr>fields.address = Some ''1A'', fields.publicKey = None\<rparr>]"
  have 1: "schema_addDelegates ?L ?B = None" by (rule demo_schema)
  have 2: "\<not> publicKeyMismatch ?B (signer ?L ?B)" by (simp add: demo_mismatch)
  have 3: "multisigTarget ?B (signer ?L ?B) = None" by (simp add: demo_target)
  have 4: "setAccountAndGet ?L []
             \<lparr>fields.address = None,
              fields.publicKey = Some (Hex (toString_hex (keypair.publicKey (signer ?L ?B))))\<rparr>
           = (Inr (Some ?acc), ?h1)"
    by (simp add: demo_signer hex_ab demo_setAccountAndGet)
  have 5: "truthy (account.publicKey ?acc)" by (simp add: demoAccount_def)
  have 6: "account.secondSignature ?acc" by (simp add: demoAccount_def)
  have 7: "\<not> truthy (secondSecret ?B)" by (simp add: demoBody_fields)
  show ?thesis
    using 1 3 6 7 addDelegates_own_missing_second [OF 1 2 3 4 5 6 7] by simp
qed

text \<open>
  A target account without \<open>multisignatures\<close> (\<open>null\<close> or \<open>undefined\<close>) is rejected with
  \<open>Account does not have multisignatures enabled\<close>, the message of NotMultisigAccount.
\<close>

lemma addDelegates_multisignatures_absent:
  assumes "schema_addDelegates lib body = None"
    and "\<not> publicKeyMismatch body (signer lib body)"
    and "multisigTarget body (signer lib body) = Some target"
    and "getAccount lib h \<lparr>fields.address = None, fields.publicKey = Some (Hex target)\<rparr>
         = (Inr (Some acc), h1)"
    and "truthy (account.publicKey acc)"
    and "multisignatures acc = None"
  shows "addDelegates lib h body
         = (Some (Inl ''Account does not have multisignatures enabled''), h1)"
  using assms by (simp add: addDelegates_multisig_branch addDelegates_multisig_def)

text \<open>
  C1, evaluated where the code departs from it. The target account is found, has a public
  key and the empty array as \<open>multisignatures\<close>. An empty array is truthy, so the test of
  line 283, which asks \<open>!account.multisignatures\<close> twice, lets it pass, and the request
  is rejected by the membership test of line 287 with the message of UnauthorizedSigner
  instead of \<open>Account does not have multisignatures enabled\<close>.
\<close>

theorem addDelegates_empty_multisignatures:
  "addDelegates
     (demoLib [''2A'' \<mapsto> demoAccount ''2A'' ''cd'' False (Some []),
               ''1A'' \<mapsto> demoAccount ''1A'' ''ab'' False None]
        (create (\<lambda>d. None) demoSign))
     [] (demoBody None (Some ''cd''))
   = (Some (Inl ''Account does not belong to multisignature group''),
      [AccountGet \<lparr>fields.address = Some ''2A'', fields.publicKey = None\<rparr>])"
  by (simp add: addDelegates_multisig_branch [where target = "''cd''"] demo_schema demo_mismatch
      demo_target addDelegates_multisig_def demo_getAccount_hex demoAccount_def)

text \<open>
  C5, as amended. On the multisignature branch, when the target account is found with a
  public key and its \<open>multisignatures\<close> is a non-empty list that does not hold the hex form
  of the signer's public key, the request is rejected with
  \<open>Account does not belong to multisignature group\<close>, the message of UnauthorizedSigner.
  The journal is the one left by the lookup of the target: the requester account is not
  even read, so nothing about it matters.
\<close>

theorem addDelegates_not_in_group:
  assumes "schema_addDelegates lib body = None"
    and "\<not> publicKeyMismatch body (signer lib body)"
    and "multisigTarget body (signer lib body) = Some target"
    and "getAccount lib h \<lparr>fields.address = None, fields.publicKey = Some (Hex target)\<rparr>
         = (Inr (Some acc), h1)"
    and "truthy (account.publicKey acc)"
    and "multisignatures acc = Some ms"
    and "ms \<noteq> []"
    and "toString_hex (keypair.publicKey (signer lib body)) \<notin> set ms"
  shows "addDelegates lib h body
         = (Some (Inl ''Account does not belong to multisignature group''), h1)"
  using assms by (simp add: addDelegates_multisig_branch addDelegates_multisig_def)

theorem addDelegates_not_in_group_witness:
  "multisigTarget (demoBody None (Some ''cd''))
     (signer
        (demoLib [''2A'' \<mapsto> demoAccount ''2A'' ''cd'' False (Some [''ef''])]
           (create (\<lambda>d. None) demoSign))
        (demoBody None (Some ''cd''))) = Some ''cd''
   \<and> multisignatures (demoAccount ''2A'' ''cd'' False (Some [''ef''])) = Some [''ef'']
   \<and> toString_hex (keypair.publicKey
        (signer
           (demoLib [''2A'' \<mapsto> demoAccount ''2A'' ''cd'' False (Some [''ef''])]
              (create (\<lambda>d. None) demoSign))
           (demoBody None (Some ''cd'')))) \<notin> set [''ef'']
   \<and> addDelegates
        (demoLib [''2A'' \<mapsto> demoAccount ''2A'' ''cd'' False (Some [''ef''])]
           (create (\<lambda>d. None) demoSign))
        [] (demoBody None (Some ''cd''))
       = (Some (Inl ''Account does not belong to multisignature group''),
          [AccountGet \<lparr>fields.address = Some ''2A'', fields.publicKey = None\<rparr>])"
proof -
  let ?acc = "demoAccount ''2A'' ''cd'' False (Some [''ef''])"
  let ?L = "demoLib [''2A'' \<mapsto> ?acc] (create (\<lambda>d. None) demoSign)"
  let ?B = "demoBody None (Some ''cd'')"
  let ?h1 = "[AccountGet \<lparr>fields.address = Some ''2A'', fields.publicKey = None\<rparr>]"
  have 1: "schema_addDelegates ?L ?B = None" by (rule demo_schema)
  have 2: "\<not> publicKeyMismatch ?B (signer ?L ?B)" by (simp add: demo_mismatch)
  have 3: "multisigTarget ?B (signer ?L ?B) = Some ''cd''" by (simp add: demo_target)
  have 4: "getAccount ?L [] \<lparr>fields.address = None, fields.publicKey = Some (Hex ''cd'')\<rparr>
           = (Inr (Some ?acc), ?h1)"
    by (simp add: demo_getAccount_hex)
  have 5: "truthy (account.publicKey ?acc)" by (simp add: demoAccount_def)
  have 6: "multisignatures ?acc = Some [''ef'']" by (simp add: demoAccount_def)
  have 7: "[''ef''] \<noteq> []" by simp
  have 8: "toString_hex (keypair.publicKey (signer ?L ?B)) \<notin> set [''ef'']"
    by (simp add: demo_signer hex_ab)
  show ?thesis
    using 3 6 8 addDelegates_not_in_group [OF 1 2 3 4 5 6 7 8] by simp
qed

text \<open>
  C5 as stated fails where the target account has no \<open>multisignatures\<close> at all: the
  signer's key is in no list of that account, and the request is rejected by the earlier
  test of line 283 with \<open>Account does not have multisignatures enabled\<close>.
\<close>

theorem addDelegates_not_in_group_counterexample:
  "multisigTarget (demoBody None (Some ''cd''))
     (signer
        (demoLib [''2A'' \<mapsto> demoAccount ''2A'' ''cd'' False None,
                  ''1A'' \<mapsto> demoAccount ''1A'' ''ab'' False None]
           (create (\<lambda>d. None) demoSign))
        (demoBody None (Some ''cd''))) = Some ''cd''
   \<and> getAccount
        (demoLib [''2A'' \<mapsto> demoAccount ''2A'' ''cd'' False None,
                  ''1A'' \<mapsto> demoAccount ''1A'' ''ab'' False None]
           (create (\<lambda>d. None) demoSign))
        [] \<lparr>fields.address = None, fields.publicKey = Some (Hex ''cd'')\<rparr>
       = (Inr (Some (demoAccount ''2A'' ''cd'' False None)),
          [AccountGet \<lparr>fields.address = Some ''2A'', fields.publicKey = None\<rparr>])
   \<and> multisignatures (demoAccount ''2A'' ''cd'' False None) = None
   \<and> fst (addDelegates
        (demoLib [''2A'' \<mapsto> demoAccount ''2A'' ''cd'' False None,
                  ''1A'' \<mapsto> demoAccount ''1A'' ''ab'' False None]
           (create (\<lambda>d. None) demoSign))
        [] (demoBody None (Some ''cd'')))
       = Some (Inl ''Account does not have multisignatures enabled'')
   \<and> fst (addDelegates
        (demoLib [''2A'' \<mapsto> demoAccount ''2A'' ''cd'' False None,
                  ''1A'' \<mapsto> demoAccount ''1A'' ''ab'' False None]
           (create (\<lambda>d. None) demoSign))
        [] (demoBody None (Some ''cd'')))
       \<noteq> Some (Inl ''Account does not belong to multisignature group'')"
  by (simp add: addDelegates_multisig_branch [where target = "''cd''"] demo_schema demo_mismatch
      demo_target addDelegates_multisig_def demo_getAccount_hex demoAccount_def)

text \<open>
  C2, as amended. On the multisignature branch the comparison of the requester's public
  key with the target's is the last test before the transaction is built. When the target
  is found with a public key and lists the signer, the requester account is found with a
  public key and, if it has \<open>secondSignature\<close>, the request carries a \<open>secondSecret\<close>, then a
  requester record whose public key equals that of the target record is rejected with
  \<open>Invalid requester public key\<close>, the message of InvalidRequester.
\<close>

theorem addDelegates_invalid_requester:
  assumes "schema_addDelegates lib body = None"
    and "\<not> publicKeyMismatch body (signer lib body)"
    and "multisigTarget body (signer lib body) = Some target"
    and "getAccount lib h \<lparr>fields.address = None, fields.publicKey = Some (Hex target)\<rparr>
         = (Inr (Some acc), h1)"
    and "truthy (account.publicKey acc)"
    and "multisignatures acc = Some ms"
    and "toString_hex (keypair.publicKey (signer lib body)) \<in> set ms"
    and "getAccount lib h1
           \<lparr>fields.address = None,
            fields.publicKey = Some (Buffer (keypair.publicKey (signer lib body)))\<rparr>
         = (Inr (Some req), h2)"
    and "truthy (account.publicKey req)"
    and "account.secondSignature req \<longrightarrow> truthy (secondSecret body)"
    and "account.publicKey req = account.publicKey acc"
  shows "addDelegates lib h body = (Some (Inl ''Invalid requester public key''), h2)"
  using assms by (simp add: addDelegates_multisig_branch addDelegates_multisig_def)

text \<open>
  The target is named \<open>AB\<close>, the upper-case spelling of the signer's key \<open>ab\<close>: line 273
  compares the strings, so the multisignature branch is taken, and both lookups reach the
  signer's own record.
\<close>

theorem addDelegates_invalid_requester_witness:
  "multisigTarget (demoBody None (Some ''AB''))
     (signer
        (demoLib [''1A'' \<mapsto> demoAccount ''1A'' ''ab'' False (Some [''ab''])]
           (create (\<lambda>d. None) demoSign))
        (demoBody None (Some ''AB''))) = Some ''AB''
   \<and> account.publicKey (demoAccount ''1A'' ''ab'' False (Some [''ab'']))
       = Some (toString_hex (keypair.publicKey
           (signer
              (demoLib [''1A'' \<mapsto> demoAccount ''1A'' ''ab'' False (Some [''ab''])]
                 (create (\<lambda>d. None) demoSign))
              (demoBody None (Some ''AB'')))))
   \<and> addDelegates
        (demoLib [''1A'' \<mapsto> demoAccount ''1A'' ''ab'' False (Some [''ab''])]
           (create (\<lambda>d. None) demoSign))
        [] (demoBody None (Some ''AB''))
       = (Some (Inl ''Invalid requester public key''),
          [AccountGet \<lparr>fields.address = Some ''1A'', fields.publicKey = None\<rparr>,
           AccountGet \<lparr>fields.address = Some ''1A'', fields.publicKey = None\<rparr>])"
proof -
  let ?acc = "demoAccount ''1A'' ''ab'' False (Some [''ab''])"
  let ?L = "demoLib [''1A'' \<mapsto> ?acc] (create (\<lambda>d. None) demoSign)"
  let ?B = "demoBody None (Some ''AB'')"
  let ?g = "AccountGet \<lparr>fields.address = Some ''1A'', fields.publicKey = None\<rparr>"
  have 1: "schema_addDelegates ?L ?B = None" by (rule demo_schema)
  have 2: "\<not> publicKeyMismatch ?B (signer ?L ?B)" by (simp add: demo_mismatch)
  have 3: "multisigTarget ?B (signer ?L ?B) = Some ''AB''" by (simp add: demo_target)
  have 4: "getAccount ?L [] \<lparr>fields.address = None, fields.publicKey = Some (Hex ''AB'')\<rparr>
           = (Inr (Some ?acc), [?g])"
    by (simp add: demo_getAccount_HEX)
  have 5: "truthy (account.publicKey ?acc)" by (simp add: demoAccount_def)
  have 6: "multisignatures ?acc = Some [''ab'']" by (simp add: demoAccount_def)
  have 7: "toString_hex (keypair.publicKey (signer ?L ?B)) \<in> set [''ab'']"
    by (simp add: demo_signer hex_ab)
  have 8: "getAccount ?L [?g]
             \<lparr>fields.address = None,
              fields.publicKey = Some (Buffer (keypair.publicKey (signer ?L ?B)))\<rparr>
           = (Inr (Some ?acc), [?g, ?g])"
    by (simp add: demo_signer demo_getAccount_buffer)
  have 9: "account.secondSignature ?acc \<longrightarrow> truthy (secondSecret ?B)"
    by (simp add: demoAccount_def)
  have 10: "account.publicKey ?acc = account.publicKey ?acc" by simp
  have 11: "account.publicKey ?acc
            = Some (toString_hex (keypair.publicKey (signer ?L ?B)))"
    by (simp add: demo_signer hex_ab demoAccount_def)
  show ?thesis
    using 3 11 addDelegates_invalid_requester [OF 1 2 3 4 5 6 7 8 5 9 10] by simp
qed

text \<open>
  C2 as stated fails: with the same request on a ledger where the record has
  \<open>secondSignature\<close>, the signer's derived public key is the target record's public key,
  and yet the request is rejected by the earlier test of line 300 with
  \<open>Missing requester second passphrase\<close>.
\<close>

theorem addDelegates_invalid_requester_counterexample:
  "multisigTarget (demoBody None (Some ''AB''))
     (signer
        (demoLib [''1A'' \<mapsto> demoAccount ''1A'' ''ab'' True (Some [''ab''])]
           (create (\<lambda>d. None) demoSign))
        (demoBody None (Some ''AB''))) = Some ''AB''
   \<and> getAccount
        (demoLib [''1A'' \<mapsto> demoAccount ''1A'' ''ab'' True (Some [''ab''])]
           (create (\<lambda>d. None) demoSign))
        [] \<lparr>fields.address = None, fields.publicKey = Some (Hex ''AB'')\<rparr>
       = (Inr (Some (demoAccount ''1A'' ''ab'' True (Some [''ab'']))),
          [AccountGet \<lparr>fields.address = Some ''1A'', fields.publicKey = None\<rparr>])
   \<and> account.publicKey (demoAccount ''1A'' ''ab'' True (Some [''ab'']))
       = Some (toString_hex (keypair.publicKey
           (signer
              (demoLib [''1A'' \<mapsto> demoAccount ''1A'' ''ab'' True (Some [''ab''])]
                 (create (\<lambda>d. None) demoSign))
              (demoBody None (Some ''AB'')))))
   \<and> fst (addDelegates
        (demoLib [''1A'' \<mapsto> demoAccount ''1A'' ''ab'' True (Some [''ab''])]
           (create (\<lambda>d. None) demoSign))
        [] (demoBody None (Some ''AB'')))
       = Some (Inl ''Missing requester second passphrase'')
   \<and> fst (addDelegates
        (demoLib [''1A'' \<mapsto> demoAccount ''1A'' ''ab'' True (Some [''ab''])]
           (create (\<lambda>d. None) demoSign))
        [] (demoBody None (Some ''AB'')))
       \<noteq> Some (Inl ''Invalid requester public key'')"
proof -
  let ?acc = "demoAccount ''1A'' ''ab'' True (Some [''ab''])"
  let ?L = "demoLib [''1A'' \<mapsto> ?acc] (create (\<lambda>d. None) demoSign)"
  let ?B = "demoBody None (Some ''AB'')"
  let ?g = "AccountGet \<lparr>fields.address = Some ''1A'', fields.publicKey = None\<rparr>"
  have 1: "schema_addDelegates ?L ?B = None" by (rule demo_schema)
  have 2: "\<not> publicKeyMismatch ?B (signer ?L ?B)" by (simp add: demo_mismatch)
  have 3: "multisigTarget ?B (signer ?L ?B) = Some ''AB''" by (simp add: demo_target)
  have 4: "getAccount ?L [] \<lparr>fields.address = None, fields.publicKey = Some (Hex ''AB'')\<rparr>
           = (Inr (Some ?acc), [?g])"
    by (simp add: demo_getAccount_HEX)
  have 5: "account.publicKey ?acc = Some (toString_hex (keypair.publicKey (signer ?L ?B)))"
    by (simp add: demo_signer hex_ab demoAccount_def)
  have 6: "getAccount ?L [?g]
             \<lparr>fields.address = None,
              fields.publicKey = Some (Buffer (keypair.publicKey (signer ?L ?B)))\<rparr>
           = (Inr (Some ?acc), [?g, ?g])"
    by (simp add: demo_signer demo_getAccount_buffer)
  have 7: "toString_hex (keypair.publicKey (signer ?L ?B)) \<in> set [''ab'']"
    by (simp add: demo_signer hex_ab)
  have 8: "multisignatures ?acc = Some [''ab''] \<and> account.secondSignature ?acc
           \<and> truthy (account.publicKey ?acc)"
    by (simp add: demoAccount_def)
  have "addDelegates_multisig ?L ?B (signer ?L ?B) ''AB'' []
        = (Inl ''Missing requester second passphrase'', [?g, ?g])"
    using 7 8 by (simp add: addDelegates_multisig_def 4 6 demoBody_fields)
  then have "fst (addDelegates ?L [] ?B) = Some (Inl ''Missing requester second passphrase'')"
    by (simp add: addDelegates_multisig_branch [OF 1 2 3])
  with 3 4 5 show ?thesis by simp
qed







text \<open>
  C7. The builder is \<open>create\<close>, with any validation \<open>check\<close> and any signature primitive
  \<open>sign\<close>. On the multisignature branch, when the target account is found with a public
  key and lists the signer, the requester account is found with a public key different
  from the target's and has no \<open>secondSignature\<close>, and the builder accepts the data, exactly
  one transaction is handed to the pool: its \<open>requesterPublicKey\<close> is the hex form of the
  signer's public key and its sender, public key and address, is the target account. On
  the branch for the signer's own account the transaction handed to the pool has no
  \<open>requesterPublicKey\<close> and the signer's account as sender.
\<close>

theorem addDelegates_requester_field:
  assumes "schema_addDelegates lib body = None"
    and "\<not> publicKeyMismatch body (signer lib body)"
    and "transaction_create lib = create check sign"
  shows
    "(multisigTarget body (signer lib body) = Some target
      \<and> getAccount lib h \<lparr>fields.address = None, fields.publicKey = Some (Hex target)\<rparr>
          = (Inr (Some acc), h1)
      \<and> truthy (account.publicKey acc)
      \<and> multisignatures acc = Some ms
      \<and> toString_hex (keypair.publicKey (signer lib body)) \<in> set ms
      \<and> getAccount lib h1
            \<lparr>fields.address = None,
             fields.publicKey = Some (Buffer (keypair.publicKey (signer lib body)))\<rparr>
          = (Inr (Some req), h2)
      \<and> truthy (account.publicKey req)
      \<and> \<not> account.secondSignature req
      \<and> account.publicKey req \<noteq> account.publicKey acc
      \<and> check (voteData body acc (signer lib body) None (Some (signer lib body))) = None
      \<longrightarrow> (\<exists>tx. snd (addDelegates lib h body) = h2 @ [ReceiveTransactions [tx]]
             \<and> requesterPublicKey tx = Some (toString_hex (keypair.publicKey (signer lib body)))
             \<and> senderPublicKey tx = account.publicKey acc
             \<and> senderAddress tx = account.address acc))
     \<and> (multisigTarget body (signer lib body) = None
      \<and> setAccountAndGet lib h
            \<lparr>fields.address = None,
             fields.publicKey = Some (Hex (toString_hex (keypair.publicKey (signer lib body))))\<rparr>
          = (Inr (Some own), k1)
      \<and> truthy (account.publicKey own)
      \<and> (account.secondSignature own \<longrightarrow> truthy (secondSecret body))
      \<and> check (voteData body own (signer lib body)
                 (secondKeypairOf lib (account.secondSignature own) (secondSecret body)) None)
          = None
      \<longrightarrow> (\<exists>tx. snd (addDelegates lib h body) = k1 @ [ReceiveTransactions [tx]]
             \<and> requesterPublicKey tx = None
             \<and> senderPublicKey tx = account.publicKey own))"
proof (intro conjI impI)
  assume a: "multisigTarget body (signer lib body) = Some target
      \<and> getAccount lib h \<lparr>fields.address = None, fields.publicKey = Some (Hex target)\<rparr>
          = (Inr (Some acc), h1)
      \<and> truthy (account.publicKey acc)
      \<and> multisignatures acc = Some ms
      \<and> toString_hex (keypair.publicKey (signer lib body)) \<in> set ms
      \<and> getAccount lib h1
            \<lparr>fields.address = None,
             fields.publicKey = Some (Buffer (keypair.publicKey (signer lib body)))\<rparr>
          = (Inr (Some req), h2)
      \<and> truthy (account.publicKey req)
      \<and> \<not> account.secondSignature req
      \<and> account.publicKey req \<noteq> account.publicKey acc
      \<and> check (voteData body acc (signer lib body) None (Some (signer lib body))) = None"
  define tx where "tx =
     \<lparr>transaction.type = VOTE,
      senderAddress = account.address acc,
      senderPublicKey = account.publicKey acc,
      requesterPublicKey = Some (toString_hex (keypair.publicKey (signer lib body))),
      votesAsset = delegates body,
      signature = sign (signer lib body)
        (voteData body acc (signer lib body) None (Some (signer lib body))),
      transaction.secondSignature = None\<rparr>"
  have c: "transaction_create lib
             (voteData body acc (signer lib body) None (Some (signer lib body))) = Inr tx"
    using a assms(3) by (simp add: create_def tx_def voteData_def)
  have "snd (addDelegates_multisig lib body (signer lib body) target h)
        = h2 @ [ReceiveTransactions [tx]]"
    using a c by (simp add: addDelegates_multisig_def secondKeypairOf_def)
  with a assms have "snd (addDelegates lib h body) = h2 @ [ReceiveTransactions [tx]]"
    by (simp add: addDelegates_multisig_journal)
  then show "\<exists>tx. snd (addDelegates lib h body) = h2 @ [ReceiveTransactions [tx]]
             \<and> requesterPublicKey tx = Some (toString_hex (keypair.publicKey (signer lib body)))
             \<and> senderPublicKey tx = account.publicKey acc
             \<and> senderAddress tx = account.address acc"
    by (intro exI [of _ tx]) (simp add: tx_def)
next
  assume a: "multisigTarget body (signer lib body) = None
      \<and> setAccountAndGet lib h
            \<lparr>fields.address = None,
             fields.publicKey = Some (Hex (toString_hex (keypair.publicKey (signer lib body))))\<rparr>
          = (Inr (Some own), k1)
      \<and> truthy (account.publicKey own)
      \<and> (account.secondSignature own \<longrightarrow> truthy (secondSecret body))
      \<and> check (voteData body own (signer lib body)
                 (secondKeypairOf lib (account.secondSignature own) (secondSecret body)) None)
          = None"
  obtain tx where c: "transaction_create lib
             (voteData body own (signer lib body)
                (secondKeypairOf lib (account.secondSignature own) (secondSecret body)) None)
           = Inr tx"
    and r: "requesterPublicKey tx = None" and s: "senderPublicKey tx = account.publicKey own"
    using a assms(3) by (simp add: create_def voteData_def)
  have "snd (addDelegates_own lib body (signer lib body) h) = k1 @ [ReceiveTransactions [tx]]"
    using a c by (auto simp: addDelegates_own_def)
  with a assms have "snd (addDelegates lib h body) = k1 @ [ReceiveTransactions [tx]]"
    by (simp add: addDelegates_own_journal)
  with r s show "\<exists>tx. snd (addDelegates lib h body) = k1 @ [ReceiveTransactions [tx]]
             \<and> requesterPublicKey tx = None
             \<and> senderPublicKey tx = account.publicKey own"
    by blast
qed

theorem addDelegates_requester_field_witness:
  "(\<exists>tx. snd (addDelegates
        (demoLib [''2A'' \<mapsto> demoAccount ''2A'' ''cd'' False (Some [''ab'']),
                  ''1A'' \<mapsto> demoAccount ''1A'' ''ab'' False None]
           (create (\<lambda>d. None) demoSign))
        [] (demoBody None (Some ''cd'')))
      = [AccountGet \<lparr>fields.address = Some ''2A'', fields.publicKey = None\<rparr>,
         AccountGet \<lparr>fields.address = Some ''1A'', fields.publicKey = None\<rparr>,
         ReceiveTransactions [tx]]
      \<and> requesterPublicKey tx = Some ''ab''
      \<and> senderPublicKey tx = Some ''cd''
      \<and> senderAddress tx = ''2A'')
   \<and> (\<exists>tx. snd (addDelegates
        (demoLib [''1A'' \<mapsto> demoAccount ''1A'' ''ab'' False None]
           (create (\<lambda>d. None) demoSign))
        [] (demoBody None None))
      = [AccountSet ''1A'' \<lparr>fields.address = None, fields.publicKey = Some (Hex ''ab'')\<rparr>,
         AccountGet \<lparr>fields.address = Some ''1A'', fields.publicKey = None\<rparr>,
         ReceiveTransactions [tx]]
      \<and> requesterPublicKey tx = None
      \<and> senderPublicKey tx = Some ''ab'')"
proof -
  let ?mk = "create (\<lambda>d. None) demoSign"
  let ?K = "demoAccount ''2A'' ''cd'' False (Some [''ab''])"
  let ?S = "demoAccount ''1A'' ''ab'' False None"
  let ?L = "demoLib [''2A'' \<mapsto> ?K, ''1A'' \<mapsto> ?S] ?mk"
  let ?B = "demoBody None (Some ''cd'')"
  let ?M = "demoLib [''1A'' \<mapsto> ?S] ?mk"
  let ?C = "demoBody None None"
  let ?g1 = "AccountGet \<lparr>fields.address = Some ''1A'', fields.publicKey = None\<rparr>"
  let ?g2 = "AccountGet \<lparr>fields.address = Some ''2A'', fields.publicKey = None\<rparr>"
  let ?s1 = "AccountSet ''1A'' \<lparr>fields.address = None, fields.publicKey = Some (Hex ''ab'')\<rparr>"
  have 1: "schema_addDelegates ?L ?B = None" by (rule demo_schema)
  have 2: "\<not> publicKeyMismatch ?B (signer ?L ?B)" by (simp add: demo_mismatch)
  have 3: "multisigTarget ?B (signer ?L ?B) = Some ''cd''" by (simp add: demo_target)
  have 4: "getAccount ?L [] \<lparr>fields.address = None, fields.publicKey = Some (Hex ''cd'')\<rparr>
           = (Inr (Some ?K), [?g2])"
    by (simp add: demo_getAccount_hex)
  have 5: "getAccount ?L [?g2]
             \<lparr>fields.address = None,
              fields.publicKey = Some (Buffer (keypair.publicKey (signer ?L ?B)))\<rparr>
           = (Inr (Some ?S), [?g2, ?g1])"
    by (simp add: demo_signer demo_getAccount_buffer)
  have 6: "truthy (account.publicKey ?K) \<and> multisignatures ?K = Some [''ab'']
           \<and> truthy (account.publicKey ?S) \<and> \<not> account.secondSignature ?S
           \<and> account.publicKey ?S \<noteq> account.publicKey ?K"
    by (simp add: demoAccount_def)
  have 7: "toString_hex (keypair.publicKey (signer ?L ?B)) \<in> set [''ab'']"
    by (simp add: demo_signer hex_ab)
  have 8: "toString_hex (keypair.publicKey (signer ?L ?B)) = ''ab''"
    by (simp add: demo_signer hex_ab)
  have 9: "account.publicKey ?K = Some ''cd'' \<and> account.address ?K = ''2A''
           \<and> account.publicKey ?S = Some ''ab''"
    by (simp add: demoAccount_def)
  have t1: "transaction_create ?L = ?mk" by (simp add: demoLib_def)
  have a: "\<exists>tx. snd (addDelegates ?L [] ?B) = [?g2, ?g1, ReceiveTransactions [tx]]
             \<and> requesterPublicKey tx = Some ''ab''
             \<and> senderPublicKey tx = Some ''cd''
             \<and> senderAddress tx = ''2A''"
    using 3 4 5 6 7 8 9
      addDelegates_requester_field [OF 1 2 t1, where h = "[]" and target = "''cd''"
        and acc = ?K and ms = "[''ab'']" and ?h1.0 = "[?g2]" and req = ?S
        and ?h2.0 = "[?g2, ?g1]"]
    by simp
  have 11: "schema_addDelegates ?M ?C = None" by (rule demo_schema)
  have 12: "\<not> publicKeyMismatch ?C (signer ?M ?C)" by (simp add: demo_mismatch)
  have 13: "multisigTarget ?C (signer ?M ?C) = None" by (simp add: demo_target)
  have 14: "setAccountAndGet ?M []
             \<lparr>fields.address = None,
              fields.publicKey = Some (Hex (toString_hex (keypair.publicKey (signer ?M ?C))))\<rparr>
           = (Inr (Some ?S), [?s1, ?g1])"
    by (simp add: demo_signer hex_ab demo_setAccountAndGet)
  have t2: "transaction_create ?M = ?mk" by (simp add: demoLib_def)
  have b: "\<exists>tx. snd (addDelegates ?M [] ?C) = [?s1, ?g1, ReceiveTransactions [tx]]
             \<and> requesterPublicKey tx = None
             \<and> senderPublicKey tx = Some ''ab''"
    using 13 14 6 9
      addDelegates_requester_field [OF 11 12 t2, where h = "[]" and own = ?S
        and ?k1.0 = "[?s1, ?g1]"]
    by simp
  from a b show ?thesis by simp
qed

end
